theory Spec2Isabelle
  imports Complex_Main
begin

section \<open>AccessiChef: measurement conversion and the recipe timer\<close>

text \<open>
  The development embeds two objects of the application: \<open>MeasurementConverter\<close>
  (js/accessibility.js) and \<open>RecipeTimer\<close> (js/utils/timer.js).

  Finite JavaScript numbers are modelled as exact rationals, so the arithmetic below is the
  arithmetic of the source without the binary rounding of doubles; the one non-finite value
  the converter can produce from a finite amount, \<open>NaN\<close>, is a constructor of its own.
  Unit strings are ASCII strings.
\<close>

subsection \<open>JavaScript values used by the converter\<close>

datatype number = Num rat | NaN

datatype js_error = TypeError

text \<open>
  The result of reading \<open>obj[key]\<close> on an object literal: an own property of the literal,
  a member inherited from \<open>Object.prototype\<close> (named by its key), or \<open>undefined\<close>.
\<close>

datatype 'a property = Own 'a | Inherited string | Undefined

definition objectPrototypeKeys :: "string list" where
  "objectPrototypeKeys =
     [''constructor'', ''__defineGetter__'', ''__defineSetter__'', ''hasOwnProperty'',
      ''__lookupGetter__'', ''__lookupSetter__'', ''isPrototypeOf'', ''propertyIsEnumerable'',
      ''toString'', ''valueOf'', ''__proto__'', ''toLocaleString'']"

definition getProperty :: "(string \<times> 'a) list \<Rightarrow> string \<Rightarrow> 'a property" where
  "getProperty literal key =
     (case map_of literal key of
        Some v \<Rightarrow> Own v
      | None \<Rightarrow> if key \<in> set objectPrototypeKeys then Inherited key else Undefined)"

text \<open>
  Truthiness of a looked-up value: table entries are objects or non-empty strings and the
  inherited members are functions or objects, so only \<open>undefined\<close> is falsy.
\<close>

fun truthy :: "'a property \<Rightarrow> bool" where
  "truthy Undefined = False"
| "truthy (Own v) = True"
| "truthy (Inherited k) = True"

text \<open>\<open>String.prototype.toLowerCase\<close> on ASCII strings.\<close>

definition lowerChar :: "char \<Rightarrow> char" where
  "lowerChar c =
     (case map_of (zip ''ABCDEFGHIJKLMNOPQRSTUVWXYZ'' ''abcdefghijklmnopqrstuvwxyz'') c of
        Some l \<Rightarrow> l
      | None \<Rightarrow> c)"

definition toLowerCase :: "string \<Rightarrow> string" where
  "toLowerCase s = map lowerChar s"

text \<open>\<open>Math.round\<close>: the nearest integer, a tie going towards positive infinity.\<close>

definition Math_round :: "rat \<Rightarrow> rat" where
  "Math_round x = of_int \<lfloor>x + 1 / 2\<rfloor>"

text \<open>
  \<open>x * obj.field\<close> where the field is a number or missing (\<open>undefined\<close>, written
  \<open>None\<close>): multiplying by \<open>undefined\<close> gives \<open>NaN\<close>.
\<close>

fun times :: "number \<Rightarrow> rat option \<Rightarrow> number" where
  "times (Num x) (Some y) = Num (x * y)"
| "times (Num x) None = NaN"
| "times NaN y = NaN"

subsection \<open>MeasurementConverter\<close>

record factors =
  toMetric :: rat
  toImperial :: rat

record measurement =
  amount :: number
  unit :: string

definition conversionFactors :: "(string \<times> factors) list" where
  "conversionFactors =
     [(''ml'', \<lparr>toMetric = 1, toImperial = 0.033814\<rparr>),
      (''l'', \<lparr>toMetric = 1000, toImperial = 33.814\<rparr>),
      (''floz'', \<lparr>toMetric = 29.5735, toImperial = 1\<rparr>),
      (''cup'', \<lparr>toMetric = 236.588, toImperial = 8\<rparr>),
      (''pint'', \<lparr>toMetric = 473.176, toImperial = 16\<rparr>),
      (''quart'', \<lparr>toMetric = 946.353, toImperial = 32\<rparr>),
      (''tbsp'', \<lparr>toMetric = 14.7868, toImperial = 0.5\<rparr>),
      (''tsp'', \<lparr>toMetric = 4.92892, toImperial = 0.166667\<rparr>),
      (''g'', \<lparr>toMetric = 1, toImperial = 0.035274\<rparr>),
      (''kg'', \<lparr>toMetric = 1000, toImperial = 35.274\<rparr>),
      (''oz'', \<lparr>toMetric = 28.3495, toImperial = 1\<rparr>),
      (''lb'', \<lparr>toMetric = 453.592, toImperial = 16\<rparr>)]"

definition unitMappings :: "(string \<times> string) list" where
  "unitMappings =
     [(''ml'', ''floz''), (''l'', ''quart''), (''g'', ''oz''), (''kg'', ''lb''),
      (''tbsp'', ''tbsp''), (''tsp'', ''tsp''),
      (''floz'', ''ml''), (''cup'', ''ml''), (''pint'', ''ml''), (''quart'', ''l''),
      (''oz'', ''g''), (''lb'', ''kg'')]"

definition isVolumeUnit :: "string \<Rightarrow> bool" where
  "isVolumeUnit u =
     (toLowerCase u \<in> set [''ml'', ''l'', ''floz'', ''cup'', ''pint'', ''quart'', ''tbsp'', ''tsp''])"

fun roundMeasurement :: "number \<Rightarrow> number" where
  "roundMeasurement (Num v) =
     (if v \<ge> 10 then Num (Math_round v)
      else if v \<ge> 1 then Num (Math_round (v * 4) / 4)
      else Num (Math_round (v * 8) / 8))"
| "roundMeasurement NaN = NaN"

text \<open>
  \<open>this.conversionFactors[key]\<close> where the key is itself the result of a lookup in
  \<open>unitMappings\<close>. A string is used as it is; \<open>undefined\<close> becomes the key
  \<open>"undefined"\<close>; an inherited member (a function or the prototype object) becomes its
  source text, which names no property.
\<close>

fun factorsAt :: "string property \<Rightarrow> factors property" where
  "factorsAt (Own t) = getProperty conversionFactors t"
| "factorsAt Undefined = getProperty conversionFactors ''undefined''"
| "factorsAt (Inherited k) = Undefined"

text \<open>
  \<open>entry.field\<close>: a number for a table entry, \<open>undefined\<close> for an inherited member (it
  has no such field), and a \<open>TypeError\<close> when the entry is \<open>undefined\<close>.
\<close>

fun field :: "(factors \<Rightarrow> rat) \<Rightarrow> factors property \<Rightarrow> js_error + rat option" where
  "field sel (Own f) = Inr (Some (sel f))"
| "field sel (Inherited k) = Inr None"
| "field sel Undefined = Inl TypeError"

text \<open>
  The tail of both conversion functions once the two factors have been read: round, and
  return with the target unit. A target that is not a string cannot get here, since reading
  the field of its (undefined) factor entry has thrown before.
\<close>

fun converted :: "number \<Rightarrow> string property \<Rightarrow> js_error + measurement" where
  "converted convertedAmount (Own t) =
     Inr \<lparr>amount = roundMeasurement convertedAmount, unit = t\<rparr>"
| "converted convertedAmount (Inherited k) = Inl TypeError"
| "converted convertedAmount Undefined = Inl TypeError"

definition convertToImperial :: "rat \<Rightarrow> string \<Rightarrow> js_error + measurement" where
  "convertToImperial amt u =
     (if u = ''pinch'' \<or> u = ''dash'' \<or> u = ''to taste'' \<or> u = '''' then
        Inr \<lparr>amount = Num amt, unit = u\<rparr>
      else
        let normalizedUnit = toLowerCase u in
        if \<not> truthy (getProperty conversionFactors normalizedUnit) then
          Inr \<lparr>amount = Num amt, unit = u\<rparr>
        else
          let targetUnit = getProperty unitMappings normalizedUnit in
          if isVolumeUnit normalizedUnit then
            (case field toMetric (getProperty conversionFactors normalizedUnit) of
               Inl e \<Rightarrow> Inl e
             | Inr src \<Rightarrow>
                 let mlAmount = times (Num amt) src in
                 (case field toImperial (factorsAt targetUnit) of
                    Inl e \<Rightarrow> Inl e
                  | Inr dst \<Rightarrow> converted (times mlAmount dst) targetUnit))
          else
            (case field toMetric (getProperty conversionFactors normalizedUnit) of
               Inl e \<Rightarrow> Inl e
             | Inr src \<Rightarrow>
                 let gAmount = times (Num amt) src in
                 (case field toImperial (factorsAt targetUnit) of
                    Inl e \<Rightarrow> Inl e
                  | Inr dst \<Rightarrow> converted (times gAmount dst) targetUnit)))"

definition convertToMetric :: "rat \<Rightarrow> string \<Rightarrow> js_error + measurement" where
  "convertToMetric amt u =
     (if u = ''pinch'' \<or> u = ''dash'' \<or> u = ''to taste'' \<or> u = '''' then
        Inr \<lparr>amount = Num amt, unit = u\<rparr>
      else
        let normalizedUnit = toLowerCase u in
        if \<not> truthy (getProperty conversionFactors normalizedUnit) then
          Inr \<lparr>amount = Num amt, unit = u\<rparr>
        else
          let targetUnit = getProperty unitMappings normalizedUnit in
          if isVolumeUnit normalizedUnit then
            (case field toImperial (getProperty conversionFactors normalizedUnit) of
               Inl e \<Rightarrow> Inl e
             | Inr src \<Rightarrow>
                 let flozAmount = times (Num amt) src in
                 (case field toMetric (factorsAt targetUnit) of
                    Inl e \<Rightarrow> Inl e
                  | Inr dst \<Rightarrow> converted (times flozAmount dst) targetUnit))
          else
            (case field toImperial (getProperty conversionFactors normalizedUnit) of
               Inl e \<Rightarrow> Inl e
             | Inr src \<Rightarrow>
                 let ozAmount = times (Num amt) src in
                 (case field toMetric (factorsAt targetUnit) of
                    Inl e \<Rightarrow> Inl e
                  | Inr dst \<Rightarrow> converted (times ozAmount dst) targetUnit)))"

text \<open>
  The unit of a conversion result, when there is one (\<open>None\<close> when the call threw).
\<close>

definition resultUnit :: "js_error + measurement \<Rightarrow> string option" where
  "resultUnit r = (case r of Inl e \<Rightarrow> None | Inr m \<Rightarrow> Some (unit m))"

subsection \<open>The browser around RecipeTimer\<close>

text \<open>
  \<open>RecipeTimer\<close> is one object; its four fields are the first four fields of the record
  below. The rest of the record is what the timer's code acts on: the interval and timeout
  schedules of the window (each handle with its delay in milliseconds), the counter the
  handles are drawn from (handles are positive integers, hence truthy), the display elements
  by handle, and three traces of effects: every assignment to a \<open>textContent\<close>, every
  completion callback called, and the number of completion sounds played. Display elements
  and callbacks are opaque and named by numbers; a callback does not call back into the
  timer (those of js/app.js do not). Console output is left out.
\<close>

record element =
  textContent :: string
  classList :: "string list"

record world =
  timerInterval :: "nat option"
  secondsRemaining :: int
  currentTimerDisplay :: "nat option"
  completionCallback :: "nat option"
  intervals :: "(nat \<times> nat) list"
  timeouts :: "(nat \<times> nat) list"
  nextHandle :: nat
  document :: "nat \<Rightarrow> element"
  rendered :: "(nat \<times> string) list"
  invoked :: "nat list"
  sounds :: nat

definition setInterval :: "nat \<Rightarrow> world \<Rightarrow> nat \<times> world" where
  "setInterval ms w =
     (nextHandle w,
      w\<lparr>intervals := intervals w @ [(nextHandle w, ms)], nextHandle := nextHandle w + 1\<rparr>)"

definition setTimeout :: "nat \<Rightarrow> world \<Rightarrow> world" where
  "setTimeout ms w =
     w\<lparr>timeouts := timeouts w @ [(nextHandle w, ms)], nextHandle := nextHandle w + 1\<rparr>"

text \<open>\<open>clearInterval(id)\<close>; \<open>clearInterval(null)\<close> does nothing.\<close>

fun clearInterval :: "nat option \<Rightarrow> world \<Rightarrow> world" where
  "clearInterval None w = w"
| "clearInterval (Some i) w = w\<lparr>intervals := filter (\<lambda>p. fst p \<noteq> i) (intervals w)\<rparr>"

definition setTextContent :: "nat \<Rightarrow> string \<Rightarrow> world \<Rightarrow> world" where
  "setTextContent d s w =
     w\<lparr>document := (document w)(d := (document w d)\<lparr>textContent := s\<rparr>),
       rendered := rendered w @ [(d, s)]\<rparr>"

definition classListAdd :: "nat \<Rightarrow> string list \<Rightarrow> world \<Rightarrow> world" where
  "classListAdd d cs w =
     w\<lparr>document := (document w)
         (d := (document w d)\<lparr>classList :=
            classList (document w d) @ filter (\<lambda>c. c \<notin> set (classList (document w d))) cs\<rparr>)\<rparr>"

definition classListRemove :: "nat \<Rightarrow> string list \<Rightarrow> world \<Rightarrow> world" where
  "classListRemove d cs w =
     w\<lparr>document := (document w)
         (d := (document w d)\<lparr>classList :=
            filter (\<lambda>c. c \<notin> set cs) (classList (document w d))\<rparr>)\<rparr>"

subsection \<open>Formatting the remaining time\<close>

fun digits :: "nat \<Rightarrow> string" where
  "digits n =
     (if n < 10 then [''0123456789'' ! n]
      else digits (n div 10) @ [''0123456789'' ! (n mod 10)])"

text \<open>\<open>Number.prototype.toString\<close> on an integer.\<close>

definition toString :: "int \<Rightarrow> string" where
  "toString n = (if n < 0 then ''-'' @ digits (nat (- n)) else digits (nat n))"

text \<open>\<open>s.padStart(2, '0')\<close>.\<close>

definition padStart2 :: "string \<Rightarrow> string" where
  "padStart2 s = replicate (2 - length s) (CHR ''0'') @ s"

text \<open>
  The remainder operator \<open>%\<close> of JavaScript on integers: the result has the sign of the
  dividend.
\<close>

definition jsRem :: "int \<Rightarrow> int \<Rightarrow> int" where
  "jsRem a b = sgn a * (\<bar>a\<bar> mod \<bar>b\<bar>)"

subsection \<open>RecipeTimer\<close>

definition isRunning :: "world \<Rightarrow> bool" where
  "isRunning w = (timerInterval w \<noteq> None)"

definition updateTimerDisplay :: "world \<Rightarrow> world" where
  "updateTimerDisplay w =
     (case currentTimerDisplay w of
        None \<Rightarrow> w
      | Some d \<Rightarrow>
          let minutes = secondsRemaining w div 60;
              seconds = jsRem (secondsRemaining w) 60;
              formattedTime = padStart2 (toString minutes) @ '':'' @ padStart2 (toString seconds);
              w1 = setTextContent d formattedTime w
          in if secondsRemaining w \<le> 10 then classListAdd d [''text-danger'', ''fw-bold''] w1
             else classListRemove d [''text-danger'', ''fw-bold''] w1)"

definition playTimerCompleteSound :: "world \<Rightarrow> world" where
  "playTimerCompleteSound w = w\<lparr>sounds := sounds w + 1\<rparr>"

definition stopTimer :: "world \<Rightarrow> world" where
  "stopTimer w =
     (if timerInterval w \<noteq> None then
        let w1 = clearInterval (timerInterval w) w;
            w2 = w1\<lparr>timerInterval := None, secondsRemaining := 0\<rparr>
        in if currentTimerDisplay w2 \<noteq> None then updateTimerDisplay w2 else w2
      else w)"

definition pauseTimer :: "world \<Rightarrow> world" where
  "pauseTimer w =
     (if timerInterval w \<noteq> None then
        (clearInterval (timerInterval w) w)\<lparr>timerInterval := None\<rparr>
      else w)"

definition completeTimer :: "world \<Rightarrow> world" where
  "completeTimer w =
     (let w1 = clearInterval (timerInterval w) w;
          w2 = w1\<lparr>timerInterval := None\<rparr>;
          w3 = playTimerCompleteSound w2;
          w4 = (case currentTimerDisplay w3 of
                  None \<Rightarrow> w3
                | Some d \<Rightarrow>
                    setTimeout 3000
                      (classListAdd d [''bg-success'', ''text-white'', ''fw-bold'']
                        (setTextContent d ''DONE!'' w3)))
      in case completionCallback w4 of
           None \<Rightarrow> w4
         | Some cb \<Rightarrow> w4\<lparr>invoked := invoked w4 @ [cb]\<rparr>)"

text \<open>
  The function handed to \<open>setInterval\<close>, the same text in \<open>startTimer\<close> and in
  \<open>resumeTimer\<close>; it reads the timer's fields when it runs.
\<close>

definition intervalTick :: "world \<Rightarrow> world" where
  "intervalTick w =
     (let w1 = w\<lparr>secondsRemaining := secondsRemaining w - 1\<rparr>;
          w2 = updateTimerDisplay w1
      in if secondsRemaining w2 \<le> 0 then completeTimer w2 else w2)"

text \<open>
  The function handed to \<open>setTimeout\<close> by \<open>completeTimer\<close>. It reads
  \<open>this.currentTimerDisplay\<close> when it runs, and throws when that is \<open>null\<close> by then.
\<close>

definition graceTimeout :: "world \<Rightarrow> js_error + world" where
  "graceTimeout w =
     (case currentTimerDisplay w of
        None \<Rightarrow> Inl TypeError
      | Some d \<Rightarrow>
          Inr (setTextContent d ''00:00''
                (classListRemove d [''bg-success'', ''text-white'', ''fw-bold''] w)))"

definition startTimer :: "int \<Rightarrow> nat option \<Rightarrow> nat option \<Rightarrow> world \<Rightarrow> world" where
  "startTimer seconds displayElement callback w =
     (let w1 = stopTimer w;
          w2 = w1\<lparr>secondsRemaining := seconds, currentTimerDisplay := displayElement,
                  completionCallback := callback\<rparr>;
          w3 = updateTimerDisplay w2;
          (h, w4) = setInterval 1000 w3
      in w4\<lparr>timerInterval := Some h\<rparr>)"

definition resumeTimer :: "world \<Rightarrow> world" where
  "resumeTimer w =
     (if timerInterval w = None \<and> secondsRemaining w > 0 then
        let (h, w1) = setInterval 1000 w in w1\<lparr>timerInterval := Some h\<rparr>
      else w)"

subsection \<open>Event sequences\<close>

text \<open>
  What can happen to the timer: a call of one of its four operations, an interval handle
  coming due, or a timeout handle coming due. A handle that has been cleared, or a timeout
  that has run, never comes due; an exception thrown by a timeout function ends that
  function and leaves the state as it was.
\<close>

datatype event =
    Start int "nat option" "nat option"
  | Stop
  | Pause
  | Resume
  | Tick nat
  | Fire nat

fun step :: "world \<Rightarrow> event \<Rightarrow> world" where
  "step w (Start seconds displayElement callback) = startTimer seconds displayElement callback w"
| "step w Stop = stopTimer w"
| "step w Pause = pauseTimer w"
| "step w Resume = resumeTimer w"
| "step w (Tick i) = (if i \<in> set (map fst (intervals w)) then intervalTick w else w)"
| "step w (Fire t) =
     (if t \<in> set (map fst (timeouts w)) then
        let w1 = w\<lparr>timeouts := filter (\<lambda>p. fst p \<noteq> t) (timeouts w)\<rparr>
        in (case graceTimeout w1 of Inl e \<Rightarrow> w1 | Inr w2 \<Rightarrow> w2)
      else w)"

fun run :: "world \<Rightarrow> event list \<Rightarrow> world" where
  "run w [] = w"
| "run w (e # es) = run (step w e) es"

text \<open>The page as loaded: the fields of \<open>RecipeTimer\<close> as its literal gives them.\<close>

definition init :: world where
  "init =
     \<lparr>timerInterval = None, secondsRemaining = 0, currentTimerDisplay = None,
      completionCallback = None, intervals = [], timeouts = [], nextHandle = 1,
      document = (\<lambda>d. \<lparr>textContent = [], classList = []\<rparr>), rendered = [], invoked = [],
      sounds = 0\<rparr>"

subsection \<open>Vocabulary of the statements\<close>

text \<open>The text \<open>MM:SS\<close> that \<open>updateTimerDisplay\<close> writes for a number of seconds.\<close>

definition clockText :: "int \<Rightarrow> string" where
  "clockText s = padStart2 (toString (s div 60)) @ '':'' @ padStart2 (toString (jsRem s 60))"

text \<open>
  The schedule agrees with the timer: the only interval that can come due is the one the
  timer holds, and every handle in use is older than the next one handed out.
\<close>

definition wf :: "world \<Rightarrow> bool" where
  "wf w =
     (intervals w = (case timerInterval w of None \<Rightarrow> [] | Some i \<Rightarrow> [(i, 1000)])
      \<and> list_all (\<lambda>p. fst p < nextHandle w) (intervals w)
      \<and> list_all (\<lambda>p. fst p < nextHandle w) (timeouts w))"

fun isStart :: "event \<Rightarrow> bool" where
  "isStart (Start seconds displayElement callback) = True"
| "isStart e = False"

text \<open>A call of \<open>startTimer\<close> that hands over the callback \<open>cb\<close>.\<close>

fun startsWith :: "nat \<Rightarrow> event \<Rightarrow> bool" where
  "startsWith cb (Start seconds displayElement callback) = (callback = Some cb)"
| "startsWith cb e = False"

text \<open>Every call of \<open>startTimer\<close> in the sequence asks for at least one second.\<close>

fun startsPositive :: "event \<Rightarrow> bool" where
  "startsPositive (Start seconds displayElement callback) = (1 \<le> seconds)"
| "startsPositive e = True"

section \<open>The converter\<close>

lemma Math_round_int: "Math_round x \<in> \<int>"
  by (simp add: Math_round_def)

lemma Math_round_near: "\<bar>Math_round x - x\<bar> \<le> 1 / 2"
  unfolding Math_round_def by linarith

lemma quarter_near: "\<bar>Math_round (v * 4) / 4 - v\<bar> \<le> 1 / 8"
  using Math_round_near [of "v * 4"] by (simp add: field_simps abs_le_iff)

lemma eighth_near: "\<bar>Math_round (v * 8) / 8 - v\<bar> \<le> 1 / 16"
  using Math_round_near [of "v * 8"] by (simp add: field_simps abs_le_iff)

lemmas converter_defs =
  resultUnit_def toLowerCase_def lowerChar_def getProperty_def conversionFactors_def
  unitMappings_def isVolumeUnit_def objectPrototypeKeys_def

lemma convertToImperial_supported:
  assumes "u \<notin> {''pinch'', ''dash'', ''to taste'', ''''}"
    and "map_of conversionFactors (toLowerCase u) = Some f"
    and "map_of unitMappings (toLowerCase u) = Some t"
    and "map_of conversionFactors t = Some ft"
  shows "convertToImperial a u =
    Inr \<lparr>amount = roundMeasurement (Num (a * toMetric f * toImperial ft)), unit = t\<rparr>"
  using assms by (simp add: convertToImperial_def getProperty_def)

lemma convertToMetric_supported:
  assumes "u \<notin> {''pinch'', ''dash'', ''to taste'', ''''}"
    and "map_of conversionFactors (toLowerCase u) = Some f"
    and "map_of unitMappings (toLowerCase u) = Some t"
    and "map_of conversionFactors t = Some ft"
  shows "convertToMetric a u =
    Inr \<lparr>amount = roundMeasurement (Num (a * toImperial f * toMetric ft)), unit = t\<rparr>"
  using assms by (simp add: convertToMetric_def getProperty_def)

lemma convert_passthrough:
  assumes "u \<in> {''pinch'', ''dash'', ''to taste'', ''''}
    \<or> map_of conversionFactors (toLowerCase u) = None
      \<and> toLowerCase u \<notin> set objectPrototypeKeys"
  shows "convertToImperial a u = Inr \<lparr>amount = Num a, unit = u\<rparr>"
    and "convertToMetric a u = Inr \<lparr>amount = Num a, unit = u\<rparr>"
  using assms by (auto simp add: convertToImperial_def convertToMetric_def getProperty_def)

text \<open>
  Claim C1 (conversion pivots through the base unit, so that the result denotes the same
  quantity). The code multiplies the amount by the source unit's factor towards one system
  and then by the \<^emph>\<open>target unit's\<close> factor towards the other system, which is that unit's
  scale to the base, not from it. At 100 g the code answers 100 oz where the rounding of
  3.5274 is 3.5, and at 1 cup it answers 8 ml where the rounding of 236.588 is 237.
\<close>

theorem convert_pivot_failing_input:
  "convertToImperial 100 ''g'' = Inr \<lparr>amount = Num 100, unit = ''oz''\<rparr>
   \<and> roundMeasurement (Num (100 * 0.035274)) = Num 3.5
   \<and> convertToMetric 1 ''cup'' = Inr \<lparr>amount = Num 8, unit = ''ml''\<rparr>
   \<and> roundMeasurement (Num 236.588) = Num 237"
  by code_simp

text \<open>
  Claim C2 (metric to imperial and back stays within the rounding tolerance). One litre
  becomes 32000 quarts, and 32000 quarts become 1024000000 litres. The example of the claim,
  100 g, does come back as 100 g, by way of 100 oz.
\<close>

theorem convert_roundtrip_failing_input:
  "convertToImperial 1 ''l'' = Inr \<lparr>amount = Num 32000, unit = ''quart''\<rparr>
   \<and> convertToMetric 32000 ''quart'' = Inr \<lparr>amount = Num 1024000000, unit = ''l''\<rparr>
   \<and> convertToImperial 100 ''g'' = Inr \<lparr>amount = Num 100, unit = ''oz''\<rparr>
   \<and> convertToMetric 100 ''oz'' = Inr \<lparr>amount = Num 100, unit = ''g''\<rparr>"
  by code_simp

text \<open>
  Claim C7 as stated, with the tiers chosen by the absolute value, fails at \<open>-23.7\<close>:
  its absolute value is at least 10, yet the code compares the value itself, takes the last
  branch and rounds to the eighth \<open>-23.75\<close>, not to the integer \<open>-24\<close>.
\<close>

theorem roundMeasurement_negative_counterexample:
  "\<bar>- 23.7 :: rat\<bar> \<ge> 10
   \<and> roundMeasurement (Num (- 23.7)) = Num (- 23.75)
   \<and> roundMeasurement (Num (- 23.7)) \<noteq> Num (- 24)"
  by code_simp

text \<open>
  Claim C7, amended: the tier is chosen by the value itself. A value of at least 10 is
  rounded to a nearest integer, a value from 1 up to 10 to a nearest quarter, and every
  smaller value (every negative one included) to a nearest eighth; 23.7 gives 24, 3.1 gives
  3 and 0.6 gives 0.625.
\<close>

theorem roundMeasurement_tiers:
  "(\<exists>r. roundMeasurement (Num v) = Num r
     \<and> (10 \<le> v \<longrightarrow> r \<in> \<int> \<and> \<bar>r - v\<bar> \<le> 1 / 2)
     \<and> (1 \<le> v \<and> v < 10 \<longrightarrow> r * 4 \<in> \<int> \<and> \<bar>r - v\<bar> \<le> 1 / 8)
     \<and> (v < 1 \<longrightarrow> r * 8 \<in> \<int> \<and> \<bar>r - v\<bar> \<le> 1 / 16))
   \<and> roundMeasurement (Num 23.7) = Num 24
   \<and> roundMeasurement (Num 3.1) = Num 3
   \<and> roundMeasurement (Num 0.6) = Num 0.625"
proof -
  consider (whole) "10 \<le> v" | (quarter) "1 \<le> v" "v < 10" | (eighth) "v < 1"
    by linarith
  then have "\<exists>r. roundMeasurement (Num v) = Num r
     \<and> (10 \<le> v \<longrightarrow> r \<in> \<int> \<and> \<bar>r - v\<bar> \<le> 1 / 2)
     \<and> (1 \<le> v \<and> v < 10 \<longrightarrow> r * 4 \<in> \<int> \<and> \<bar>r - v\<bar> \<le> 1 / 8)
     \<and> (v < 1 \<longrightarrow> r * 8 \<in> \<int> \<and> \<bar>r - v\<bar> \<le> 1 / 16)"
  proof cases
    case whole
    then show ?thesis
      by (intro exI [of _ "Math_round v"])
        (use Math_round_int [of v] Math_round_near [of v] in auto)
  next
    case quarter
    have "Math_round (v * 4) / 4 * 4 \<in> \<int>"
      using Math_round_int [of "v * 4"] by simp
    then show ?thesis
      by (intro exI [of _ "Math_round (v * 4) / 4"]) (use quarter quarter_near [of v] in auto)
  next
    case eighth
    have "Math_round (v * 8) / 8 * 8 \<in> \<int>"
      using Math_round_int [of "v * 8"] by simp
    then show ?thesis
      by (intro exI [of _ "Math_round (v * 8) / 8"]) (use eighth eighth_near [of v] in auto)
  qed
  moreover have "roundMeasurement (Num 23.7) = Num 24" "roundMeasurement (Num 3.1) = Num 3"
    "roundMeasurement (Num 0.6) = Num 0.625"
    by code_simp+
  ultimately show ?thesis
    by blast
qed

text \<open>Claim C7, amended: the three tiers at 23.7, 3.1 and 0.6.\<close>

theorem roundMeasurement_tiers_witness:
  "(10::rat) \<le> 23.7
   \<and> (\<exists>r. roundMeasurement (Num 23.7) = Num r \<and> r \<in> \<int> \<and> \<bar>r - 23.7\<bar> \<le> 1 / 2)
   \<and> (1::rat) \<le> 3.1 \<and> (3.1::rat) < 10
   \<and> (\<exists>r. roundMeasurement (Num 3.1) = Num r \<and> r * 4 \<in> \<int> \<and> \<bar>r - 3.1\<bar> \<le> 1 / 8)
   \<and> (0.6::rat) < 1
   \<and> (\<exists>r. roundMeasurement (Num 0.6) = Num r \<and> r * 8 \<in> \<int> \<and> \<bar>r - 0.6\<bar> \<le> 1 / 16)"
proof -
  have a: "(10::rat) \<le> 23.7" and b: "(1::rat) \<le> 3.1" "(3.1::rat) < 10" and c: "(0.6::rat) < 1"
    by simp_all
  from roundMeasurement_tiers [of "23.7"] a
  have "\<exists>r. roundMeasurement (Num 23.7) = Num r \<and> r \<in> \<int> \<and> \<bar>r - 23.7\<bar> \<le> 1 / 2"
    by blast
  moreover from roundMeasurement_tiers [of "3.1"] b
  have "\<exists>r. roundMeasurement (Num 3.1) = Num r \<and> r * 4 \<in> \<int> \<and> \<bar>r - 3.1\<bar> \<le> 1 / 8"
    by blast
  moreover from roundMeasurement_tiers [of "0.6"] c
  have "\<exists>r. roundMeasurement (Num 0.6) = Num r \<and> r * 8 \<in> \<int> \<and> \<bar>r - 0.6\<bar> \<le> 1 / 16"
    by blast
  ultimately show ?thesis
    using a b c by blast
qed

text \<open>
  Claim C8 (a unit that is a marker or is absent from the factor table is passed through,
  and nothing is raised). The unit \<open>constructor\<close> is not a key of the table, but the lookup
  \<open>this.conversionFactors[normalizedUnit]\<close> finds the member of that name inherited from
  \<open>Object.prototype\<close>, the guard does not fire, and reading the factor of the target throws
  a \<open>TypeError\<close>. For every other absent unit the claim holds: \<open>convert_passthrough\<close>.
\<close>

theorem convert_prototype_failing_input:
  "map_of conversionFactors (toLowerCase ''constructor'') = None
   \<and> convertToImperial 1 ''constructor'' = Inl TypeError
   \<and> convertToMetric 1 ''constructor'' = Inl TypeError"
  by code_simp

text \<open>
  Claim C9 as stated fails for the quart: \<open>unitMappings\<close> sends it to the litre, not to the
  millilitre.
\<close>

theorem convertToMetric_quart_counterexample:
  "resultUnit (convertToMetric 1 ''quart'') = Some ''l''
   \<and> resultUnit (convertToMetric 1 ''quart'') \<noteq> Some ''ml''"
  by code_simp

text \<open>
  Claim C9, amended: for every amount, \<open>convertToMetric\<close> labels a cup, a pint and a fluid
  ounce with \<open>ml\<close>, and a quart with \<open>l\<close>.
\<close>

theorem convertToMetric_folding:
  "resultUnit (convertToMetric a ''cup'') = Some ''ml''
   \<and> resultUnit (convertToMetric a ''pint'') = Some ''ml''
   \<and> resultUnit (convertToMetric a ''floz'') = Some ''ml''
   \<and> resultUnit (convertToMetric a ''quart'') = Some ''l''"
  by (simp add: convertToMetric_def converter_defs)

text \<open>
  Claim C10: asked for the imperial direction on a cup or a pint, the converter answers in
  \<open>ml\<close>, since the target unit comes from the one mapping table whatever the direction;
  one cup gives the amount 8 with the unit \<open>ml\<close>.
\<close>

theorem convertToImperial_imperial_source:
  "resultUnit (convertToImperial a ''cup'') = Some ''ml''
   \<and> resultUnit (convertToImperial a ''pint'') = Some ''ml''
   \<and> convertToImperial 1 ''cup'' = Inr \<lparr>amount = Num 8, unit = ''ml''\<rparr>"
proof -
  have "convertToImperial 1 ''cup'' = Inr \<lparr>amount = Num 8, unit = ''ml''\<rparr>"
    by code_simp
  then show ?thesis
    by (simp add: convertToImperial_def converter_defs)
qed

section \<open>The timer\<close>

lemma setTextContent_frame [simp]:
  "timerInterval (setTextContent d s w) = timerInterval w"
  "secondsRemaining (setTextContent d s w) = secondsRemaining w"
  "currentTimerDisplay (setTextContent d s w) = currentTimerDisplay w"
  "completionCallback (setTextContent d s w) = completionCallback w"
  "intervals (setTextContent d s w) = intervals w"
  "timeouts (setTextContent d s w) = timeouts w"
  "nextHandle (setTextContent d s w) = nextHandle w"
  "invoked (setTextContent d s w) = invoked w"
  "sounds (setTextContent d s w) = sounds w"
  "rendered (setTextContent d s w) = rendered w @ [(d, s)]"
  "textContent (document (setTextContent d s w) d) = s"
  "classList (document (setTextContent d s w) e) = classList (document w e)"
  by (simp_all add: setTextContent_def)

lemma classListAdd_frame [simp]:
  "timerInterval (classListAdd d cs w) = timerInterval w"
  "secondsRemaining (classListAdd d cs w) = secondsRemaining w"
  "currentTimerDisplay (classListAdd d cs w) = currentTimerDisplay w"
  "completionCallback (classListAdd d cs w) = completionCallback w"
  "intervals (classListAdd d cs w) = intervals w"
  "timeouts (classListAdd d cs w) = timeouts w"
  "nextHandle (classListAdd d cs w) = nextHandle w"
  "invoked (classListAdd d cs w) = invoked w"
  "sounds (classListAdd d cs w) = sounds w"
  "rendered (classListAdd d cs w) = rendered w"
  "textContent (document (classListAdd d cs w) e) = textContent (document w e)"
  by (simp_all add: classListAdd_def)

lemma classListRemove_frame [simp]:
  "timerInterval (classListRemove d cs w) = timerInterval w"
  "secondsRemaining (classListRemove d cs w) = secondsRemaining w"
  "currentTimerDisplay (classListRemove d cs w) = currentTimerDisplay w"
  "completionCallback (classListRemove d cs w) = completionCallback w"
  "intervals (classListRemove d cs w) = intervals w"
  "timeouts (classListRemove d cs w) = timeouts w"
  "nextHandle (classListRemove d cs w) = nextHandle w"
  "invoked (classListRemove d cs w) = invoked w"
  "sounds (classListRemove d cs w) = sounds w"
  "rendered (classListRemove d cs w) = rendered w"
  "textContent (document (classListRemove d cs w) e) = textContent (document w e)"
  "set (classList (document (classListRemove d cs w) d)) = set (classList (document w d)) - set cs"
  by (auto simp add: classListRemove_def)

lemma updateTimerDisplay_frame [simp]:
  "timerInterval (updateTimerDisplay w) = timerInterval w"
  "secondsRemaining (updateTimerDisplay w) = secondsRemaining w"
  "currentTimerDisplay (updateTimerDisplay w) = currentTimerDisplay w"
  "completionCallback (updateTimerDisplay w) = completionCallback w"
  "intervals (updateTimerDisplay w) = intervals w"
  "timeouts (updateTimerDisplay w) = timeouts w"
  "nextHandle (updateTimerDisplay w) = nextHandle w"
  "invoked (updateTimerDisplay w) = invoked w"
  "sounds (updateTimerDisplay w) = sounds w"
  by (simp_all add: updateTimerDisplay_def Let_def split: option.split)

lemma updateTimerDisplay_rendered:
  "rendered (updateTimerDisplay w) =
     rendered w @ (case currentTimerDisplay w of None \<Rightarrow> []
                   | Some d \<Rightarrow> [(d, clockText (secondsRemaining w))])"
  by (simp add: updateTimerDisplay_def clockText_def Let_def split: option.split)

lemma updateTimerDisplay_text:
  "currentTimerDisplay w = Some d \<Longrightarrow>
     textContent (document (updateTimerDisplay w) d) = clockText (secondsRemaining w)"
  by (simp add: updateTimerDisplay_def clockText_def Let_def)


lemma stopTimer_fields:
  "timerInterval (stopTimer w) = None"
  "secondsRemaining (stopTimer w) = (if timerInterval w = None then secondsRemaining w else 0)"
  "currentTimerDisplay (stopTimer w) = currentTimerDisplay w"
  "completionCallback (stopTimer w) = completionCallback w"
  "intervals (stopTimer w) =
     (case timerInterval w of None \<Rightarrow> intervals w
      | Some i \<Rightarrow> filter (\<lambda>p. fst p \<noteq> i) (intervals w))"
  "timeouts (stopTimer w) = timeouts w"
  "nextHandle (stopTimer w) = nextHandle w"
  "invoked (stopTimer w) = invoked w"
  by (auto simp add: stopTimer_def Let_def)

lemma pauseTimer_fields:
  "timerInterval (pauseTimer w) = None"
  "secondsRemaining (pauseTimer w) = secondsRemaining w"
  "currentTimerDisplay (pauseTimer w) = currentTimerDisplay w"
  "completionCallback (pauseTimer w) = completionCallback w"
  "intervals (pauseTimer w) =
     (case timerInterval w of None \<Rightarrow> intervals w
      | Some i \<Rightarrow> filter (\<lambda>p. fst p \<noteq> i) (intervals w))"
  "timeouts (pauseTimer w) = timeouts w"
  "nextHandle (pauseTimer w) = nextHandle w"
  "invoked (pauseTimer w) = invoked w"
  "rendered (pauseTimer w) = rendered w"
  by (auto simp add: pauseTimer_def)

lemma resumeTimer_fields:
  "timerInterval (resumeTimer w) =
     (if timerInterval w = None \<and> secondsRemaining w > 0 then Some (nextHandle w)
      else timerInterval w)"
  "secondsRemaining (resumeTimer w) = secondsRemaining w"
  "currentTimerDisplay (resumeTimer w) = currentTimerDisplay w"
  "completionCallback (resumeTimer w) = completionCallback w"
  "intervals (resumeTimer w) =
     (if timerInterval w = None \<and> secondsRemaining w > 0
      then intervals w @ [(nextHandle w, 1000)] else intervals w)"
  "timeouts (resumeTimer w) = timeouts w"
  "nextHandle (resumeTimer w) =
     (if timerInterval w = None \<and> secondsRemaining w > 0 then nextHandle w + 1
      else nextHandle w)"
  "invoked (resumeTimer w) = invoked w"
  "rendered (resumeTimer w) = rendered w"
  by (simp_all add: resumeTimer_def setInterval_def)

lemma startTimer_fields:
  "timerInterval (startTimer s d c w) = Some (nextHandle w)"
  "secondsRemaining (startTimer s d c w) = s"
  "currentTimerDisplay (startTimer s d c w) = d"
  "completionCallback (startTimer s d c w) = c"
  "intervals (startTimer s d c w) = intervals (stopTimer w) @ [(nextHandle w, 1000)]"
  "timeouts (startTimer s d c w) = timeouts w"
  "nextHandle (startTimer s d c w) = nextHandle w + 1"
  "invoked (startTimer s d c w) = invoked w"
  by (simp_all add: startTimer_def setInterval_def Let_def stopTimer_fields)

lemma startTimer_rendered:
  "rendered (startTimer s (Some d) c w) = rendered (stopTimer w) @ [(d, clockText s)]"
  by (simp add: startTimer_def setInterval_def Let_def updateTimerDisplay_rendered)

lemma completeTimer_fields:
  "timerInterval (completeTimer w) = None"
  "secondsRemaining (completeTimer w) = secondsRemaining w"
  "currentTimerDisplay (completeTimer w) = currentTimerDisplay w"
  "completionCallback (completeTimer w) = completionCallback w"
  "intervals (completeTimer w) =
     (case timerInterval w of None \<Rightarrow> intervals w
      | Some i \<Rightarrow> filter (\<lambda>p. fst p \<noteq> i) (intervals w))"
  "timeouts (completeTimer w) =
     (case currentTimerDisplay w of None \<Rightarrow> timeouts w
      | Some d \<Rightarrow> timeouts w @ [(nextHandle w, 3000)])"
  "nextHandle (completeTimer w) =
     (case currentTimerDisplay w of None \<Rightarrow> nextHandle w | Some d \<Rightarrow> nextHandle w + 1)"
  "invoked (completeTimer w) =
     invoked w @ (case completionCallback w of None \<Rightarrow> [] | Some cb \<Rightarrow> [cb])"
  "rendered (completeTimer w) =
     rendered w @ (case currentTimerDisplay w of None \<Rightarrow> [] | Some d \<Rightarrow> [(d, ''DONE!'')])"
  by (cases "timerInterval w";
      simp add: completeTimer_def playTimerCompleteSound_def setTimeout_def Let_def
        split: option.split)+

lemma intervalTick_fields:
  "timerInterval (intervalTick w) =
     (if secondsRemaining w - 1 \<le> 0 then None else timerInterval w)"
  "secondsRemaining (intervalTick w) = secondsRemaining w - 1"
  "currentTimerDisplay (intervalTick w) = currentTimerDisplay w"
  "completionCallback (intervalTick w) = completionCallback w"
  "intervals (intervalTick w) =
     (if secondsRemaining w - 1 \<le> 0
      then (case timerInterval w of None \<Rightarrow> intervals w
            | Some i \<Rightarrow> filter (\<lambda>p. fst p \<noteq> i) (intervals w))
      else intervals w)"
  "timeouts (intervalTick w) =
     (if secondsRemaining w - 1 \<le> 0
      then (case currentTimerDisplay w of None \<Rightarrow> timeouts w
            | Some d \<Rightarrow> timeouts w @ [(nextHandle w, 3000)])
      else timeouts w)"
  "nextHandle (intervalTick w) =
     (if secondsRemaining w - 1 \<le> 0
      then (case currentTimerDisplay w of None \<Rightarrow> nextHandle w | Some d \<Rightarrow> nextHandle w + 1)
      else nextHandle w)"
  "invoked (intervalTick w) =
     (if secondsRemaining w - 1 \<le> 0
      then invoked w @ (case completionCallback w of None \<Rightarrow> [] | Some cb \<Rightarrow> [cb])
      else invoked w)"
  by (simp_all add: intervalTick_def Let_def completeTimer_fields split: option.split)

lemma intervalTick_rendered:
  "currentTimerDisplay w = Some d \<Longrightarrow>
   rendered (intervalTick w) =
     rendered w @ (d, clockText (secondsRemaining w - 1))
       # (if secondsRemaining w - 1 \<le> 0 then [(d, ''DONE!'')] else [])"
  by (simp add: intervalTick_def Let_def completeTimer_fields updateTimerDisplay_rendered)

lemma fire_fields:
  "timerInterval (step w (Fire t)) = timerInterval w"
  "secondsRemaining (step w (Fire t)) = secondsRemaining w"
  "currentTimerDisplay (step w (Fire t)) = currentTimerDisplay w"
  "completionCallback (step w (Fire t)) = completionCallback w"
  "intervals (step w (Fire t)) = intervals w"
  "timeouts (step w (Fire t)) =
     (if t \<in> set (map fst (timeouts w)) then filter (\<lambda>p. fst p \<noteq> t) (timeouts w)
      else timeouts w)"
  "nextHandle (step w (Fire t)) = nextHandle w"
  "invoked (step w (Fire t)) = invoked w"
  by (simp_all add: graceTimeout_def Let_def split: option.split)


lemmas timer_fields =
  stopTimer_fields pauseTimer_fields resumeTimer_fields startTimer_fields intervalTick_fields
  fire_fields

lemma wf_step: "wf w \<Longrightarrow> wf (step w e)"
proof (cases e)
  case (Start s d c)
  assume "wf w"
  then show ?thesis
    by (auto simp add: Start wf_def startTimer_fields stopTimer_fields list_all_iff
        split: option.splits)
next
  case Stop
  assume "wf w"
  then show ?thesis
    by (auto simp add: Stop wf_def stopTimer_fields list_all_iff split: option.splits)
next
  case Pause
  assume "wf w"
  then show ?thesis
    by (auto simp add: Pause wf_def pauseTimer_fields list_all_iff split: option.splits)
next
  case Resume
  assume "wf w"
  then show ?thesis
    by (auto simp add: Resume wf_def resumeTimer_fields list_all_iff split: option.splits)
next
  case (Tick i)
  assume "wf w"
  then show ?thesis
    by (auto simp add: Tick wf_def intervalTick_fields list_all_iff split: option.splits)
next
  case (Fire t)
  assume "wf w"
  then show ?thesis
    unfolding Fire wf_def fire_fields by (auto simp add: list_all_iff split: option.splits)
qed

lemma wf_run: "wf w \<Longrightarrow> wf (run w es)"
  by (induction es arbitrary: w) (simp_all add: wf_step)

lemma wf_init: "wf init"
  by (simp add: wf_def init_def)

lemma nonneg_step:
  assumes "wf w" and "0 \<le> secondsRemaining w"
    and "timerInterval w \<noteq> None \<longrightarrow> 1 \<le> secondsRemaining w"
    and "startsPositive e"
  shows "0 \<le> secondsRemaining (step w e)
    \<and> (timerInterval (step w e) \<noteq> None \<longrightarrow> 1 \<le> secondsRemaining (step w e))"
proof (cases e)
  case (Tick i)
  show ?thesis
  proof (cases "i \<in> set (map fst (intervals w))")
    case True
    with assms(1) have "timerInterval w \<noteq> None"
      by (auto simp add: wf_def split: option.splits)
    with assms(3) have "1 \<le> secondsRemaining w" by simp
    with True show ?thesis
      by (simp add: Tick intervalTick_fields)
  next
    case False
    with assms show ?thesis by (simp add: Tick)
  qed
next
  case (Fire t)
  with assms show ?thesis
    by (simp only: fire_fields)
qed (use assms in \<open>auto simp add: timer_fields\<close>)

lemma nonneg_run:
  "wf w \<Longrightarrow> 0 \<le> secondsRemaining w
   \<Longrightarrow> (timerInterval w \<noteq> None \<longrightarrow> 1 \<le> secondsRemaining w)
   \<Longrightarrow> list_all startsPositive es
   \<Longrightarrow> 0 \<le> secondsRemaining (run w es)"
proof (induction es arbitrary: w)
  case Nil
  then show ?case by simp
next
  case (Cons e es)
  from Cons.prems have "startsPositive e" and "list_all startsPositive es" by simp_all
  moreover from Cons.prems \<open>startsPositive e\<close>
  have "0 \<le> secondsRemaining (step w e)
    \<and> (timerInterval (step w e) \<noteq> None \<longrightarrow> 1 \<le> secondsRemaining (step w e))"
    by (intro nonneg_step) simp_all
  moreover have "wf (step w e)" using Cons.prems(1) by (rule wf_step)
  ultimately show ?case using Cons.IH [of "step w e"] by simp
qed

lemma callback_step:
  assumes "completionCallback w \<noteq> Some cb" and "\<not> startsWith cb e"
  shows "completionCallback (step w e) \<noteq> Some cb
    \<and> count_list (invoked (step w e)) cb = count_list (invoked w) cb"
proof (cases e)
  case (Fire t)
  with assms show ?thesis by (simp only: fire_fields) simp
qed (use assms in \<open>auto simp add: timer_fields split: option.splits\<close>)

lemma callback_run:
  "completionCallback w \<noteq> Some cb \<Longrightarrow> list_all (\<lambda>e. \<not> startsWith cb e) es
   \<Longrightarrow> count_list (invoked (run w es)) cb = count_list (invoked w) cb"
proof (induction es arbitrary: w)
  case Nil
  then show ?case by simp
next
  case (Cons e es)
  then have "\<not> startsWith cb e" and rest: "list_all (\<lambda>e. \<not> startsWith cb e) es" by simp_all
  with Cons.prems(1) have
    "completionCallback (step w e) \<noteq> Some cb
      \<and> count_list (invoked (step w e)) cb = count_list (invoked w) cb"
    by (intro callback_step)
  with Cons.IH [of "step w e"] rest show ?case by simp
qed

lemma stale_step:
  assumes "h < nextHandle w" and "h \<notin> set (map fst (intervals w))"
  shows "h < nextHandle (step w e) \<and> h \<notin> set (map fst (intervals (step w e)))"
proof (cases e)
  case (Fire t)
  with assms show ?thesis by (simp only: fire_fields) simp
qed (use assms in \<open>auto simp add: timer_fields split: option.splits\<close>)

lemma stale_run:
  "h < nextHandle w \<Longrightarrow> h \<notin> set (map fst (intervals w))
   \<Longrightarrow> h \<notin> set (map fst (intervals (run w es)))"
proof (induction es arbitrary: w)
  case Nil
  then show ?case by simp
next
  case (Cons e es)
  from stale_step [OF Cons.prems, of e] Cons.IH [of "step w e"] show ?case by simp
qed

lemma finished_step:
  assumes "timerInterval w = None" and "intervals w = []" and "secondsRemaining w \<le> 0"
    and "\<not> isStart e"
  shows "timerInterval (step w e) = None \<and> intervals (step w e) = []
    \<and> secondsRemaining (step w e) \<le> 0 \<and> invoked (step w e) = invoked w"
proof (cases e)
  case (Fire t)
  with assms show ?thesis by (simp only: fire_fields)
qed (use assms in \<open>auto simp add: timer_fields split: option.splits\<close>)

lemma finished_run:
  "timerInterval w = None \<Longrightarrow> intervals w = [] \<Longrightarrow> secondsRemaining w \<le> 0
   \<Longrightarrow> list_all (\<lambda>e. \<not> isStart e) es \<Longrightarrow> invoked (run w es) = invoked w"
proof (induction es arbitrary: w)
  case Nil
  then show ?case by simp
next
  case (Cons e es)
  then have "\<not> isStart e" and rest: "list_all (\<lambda>e. \<not> isStart e) es" by simp_all
  with Cons.prems have
    "timerInterval (step w e) = None \<and> intervals (step w e) = []
      \<and> secondsRemaining (step w e) \<le> 0 \<and> invoked (step w e) = invoked w"
    by (intro finished_step)
  with Cons.IH [of "step w e"] rest show ?case by simp
qed


lemma clockText_values:
  "clockText 3 = ''00:03''" "clockText 2 = ''00:02''" "clockText 1 = ''00:01''"
  "clockText 0 = ''00:00''"
  by code_simp+

lemma intervals_stopTimer_wf: "wf w \<Longrightarrow> intervals (stopTimer w) = []"
  by (auto simp add: wf_def stopTimer_fields split: option.splits)

lemma tick_due: "i \<in> set (map fst (intervals w)) \<Longrightarrow> step w (Tick i) = intervalTick w"
  by simp

lemma tick_not_due: "i \<notin> set (map fst (intervals w)) \<Longrightarrow> step w (Tick i) = w"
  by simp

lemma completeTimer_text:
  "currentTimerDisplay w = Some d \<Longrightarrow> textContent (document (completeTimer w) d) = ''DONE!''"
  by (cases "timerInterval w";
      simp add: completeTimer_def playTimerCompleteSound_def setTimeout_def Let_def
        split: option.split)

lemma intervalTick_text:
  "currentTimerDisplay w = Some d \<Longrightarrow> secondsRemaining w - 1 \<le> 0
   \<Longrightarrow> textContent (document (intervalTick w) d) = ''DONE!''"
  by (simp add: intervalTick_def Let_def completeTimer_text)

lemma fire_display:
  assumes "t \<in> set (map fst (timeouts w))" and "currentTimerDisplay w = Some d"
  shows "rendered (step w (Fire t)) = rendered w @ [(d, ''00:00'')]"
    and "textContent (document (step w (Fire t)) d) = ''00:00''"
    and "''bg-success'' \<notin> set (classList (document (step w (Fire t)) d))"
  using assms by (simp_all add: graceTimeout_def Let_def)

lemma stopTimer_text:
  "timerInterval w \<noteq> None \<Longrightarrow> currentTimerDisplay w = Some d
   \<Longrightarrow> textContent (document (stopTimer w) d) = ''00:00''"
  by (cases "timerInterval w")
    (simp_all add: stopTimer_def Let_def updateTimerDisplay_text clockText_values)

lemma stopTimer_idle: "timerInterval w = None \<Longrightarrow> stopTimer w = w"
  by (simp add: stopTimer_def)

text \<open>
  Claim C3: after \<open>startTimer(3, display, cb)\<close> the three ticks write 00:02, 00:01 and
  00:00; the third one also cancels the interval, writes DONE!, calls \<open>cb\<close> once and
  schedules a timeout of 3000 ms. No later event other than a new \<open>startTimer\<close> calls a
  callback again, and when the timeout comes due the display is set back to 00:00 and the
  done styling is removed.
\<close>

theorem startTimer_three_ticks:
  fixes w :: world and d cb :: nat
  defines "h \<equiv> nextHandle w"
  defines "w0 \<equiv> startTimer 3 (Some d) (Some cb) w"
  defines "w1 \<equiv> step w0 (Tick h)"
  defines "w2 \<equiv> step w1 (Tick h)"
  defines "w3 \<equiv> step w2 (Tick h)"
  defines "w4 \<equiv> step w3 (Fire (h + 1))"
  assumes "wf w"
  shows "rendered w1 = rendered w0 @ [(d, ''00:02'')] \<and> isRunning w1
    \<and> rendered w2 = rendered w1 @ [(d, ''00:01'')] \<and> isRunning w2
    \<and> rendered w3 = rendered w2 @ [(d, ''00:00''), (d, ''DONE!'')]
    \<and> textContent (document w3 d) = ''DONE!''
    \<and> \<not> isRunning w3 \<and> intervals w3 = []
    \<and> invoked w2 = invoked w \<and> invoked w3 = invoked w @ [cb]
    \<and> timeouts w3 = timeouts w @ [(h + 1, 3000)]
    \<and> (\<forall>es. list_all (\<lambda>e. \<not> isStart e) es \<longrightarrow> invoked (run w3 es) = invoked w @ [cb])
    \<and> rendered w4 = rendered w3 @ [(d, ''00:00'')]
    \<and> textContent (document w4 d) = ''00:00''
    \<and> ''bg-success'' \<notin> set (classList (document w4 d))"
proof -
  have s0: "timerInterval w0 = Some h" "secondsRemaining w0 = 3"
    "currentTimerDisplay w0 = Some d" "completionCallback w0 = Some cb"
    "intervals w0 = [(h, 1000)]" "timeouts w0 = timeouts w" "nextHandle w0 = h + 1"
    "invoked w0 = invoked w"
    using \<open>wf w\<close> by (simp_all add: w0_def h_def startTimer_fields intervals_stopTimer_wf)
  have e1: "w1 = intervalTick w0"
    unfolding w1_def by (rule tick_due) (simp add: s0)
  have s1: "timerInterval w1 = Some h" "secondsRemaining w1 = 2"
    "currentTimerDisplay w1 = Some d" "completionCallback w1 = Some cb"
    "intervals w1 = [(h, 1000)]" "timeouts w1 = timeouts w" "nextHandle w1 = h + 1"
    "invoked w1 = invoked w"
    by (simp_all add: e1 intervalTick_fields s0)
  have r1: "rendered w1 = rendered w0 @ [(d, ''00:02'')]"
    by (simp add: e1 intervalTick_rendered [OF s0(3)] s0 clockText_values)
  have e2: "w2 = intervalTick w1"
    unfolding w2_def by (rule tick_due) (simp add: s1)
  have s2: "timerInterval w2 = Some h" "secondsRemaining w2 = 1"
    "currentTimerDisplay w2 = Some d" "completionCallback w2 = Some cb"
    "intervals w2 = [(h, 1000)]" "timeouts w2 = timeouts w" "nextHandle w2 = h + 1"
    "invoked w2 = invoked w"
    by (simp_all add: e2 intervalTick_fields s1)
  have r2: "rendered w2 = rendered w1 @ [(d, ''00:01'')]"
    by (simp add: e2 intervalTick_rendered [OF s1(3)] s1 clockText_values)
  have e3: "w3 = intervalTick w2"
    unfolding w3_def by (rule tick_due) (simp add: s2)
  have s3: "timerInterval w3 = None" "secondsRemaining w3 = 0"
    "currentTimerDisplay w3 = Some d" "intervals w3 = []"
    "timeouts w3 = timeouts w @ [(h + 1, 3000)]" "invoked w3 = invoked w @ [cb]"
    by (simp_all add: e3 intervalTick_fields s2)
  have r3: "rendered w3 = rendered w2 @ [(d, ''00:00''), (d, ''DONE!'')]"
    by (simp add: e3 intervalTick_rendered [OF s2(3)] s2 clockText_values)
  have t3: "textContent (document w3 d) = ''DONE!''"
    by (simp add: e3 intervalTick_text s2)
  have quiet: "invoked (run w3 es) = invoked w @ [cb]"
    if "list_all (\<lambda>e. \<not> isStart e) es" for es
    using finished_run [of w3 es] that by (simp add: s3)
  have due: "h + 1 \<in> set (map fst (timeouts w3))"
    by (simp add: s3)
  note f4 = fire_display [OF due s3(3), folded w4_def]
  show ?thesis
    by (simp add: r1 r2 r3 t3 s1 s2 s3 isRunning_def quiet f4)
qed

text \<open>Claim C3 on the freshly loaded page, with display 7 and callback 5.\<close>

theorem startTimer_three_ticks_witness:
  "wf init
   \<and> list_all (\<lambda>e. \<not> isStart e) [Tick 1, Resume, Fire 2]
   \<and> rendered (run init [Start 3 (Some 7) (Some 5), Tick 1, Tick 1, Tick 1]) =
       [(7, ''00:03''), (7, ''00:02''), (7, ''00:01''), (7, ''00:00''), (7, ''DONE!'')]
   \<and> invoked (run init [Start 3 (Some 7) (Some 5), Tick 1, Tick 1, Tick 1, Tick 1, Resume, Fire 2])
       = [5]"
proof -
  define w3 where
    "w3 = step (step (step (startTimer 3 (Some 7) (Some 5) init) (Tick 1)) (Tick 1)) (Tick 1)"
  have n: "nextHandle init = 1" "invoked init = []"
    by (simp_all add: init_def)
  have r0: "rendered (startTimer 3 (Some 7) (Some 5) init) = [(7, ''00:03'')]"
    by (simp add: startTimer_rendered clockText_values stopTimer_idle init_def)
  have q: "list_all (\<lambda>e. \<not> isStart e) [Tick 1, Resume, Fire 2]"
    by simp
  note t = startTimer_three_ticks [OF wf_init, of 7 5, unfolded n, folded w3_def]
  from t have "rendered w3 = [(7, ''00:03''), (7, ''00:02''), (7, ''00:01''), (7, ''00:00''), (7, ''DONE!'')]"
    by (simp add: r0)
  moreover from t q have "invoked (run w3 [Tick 1, Resume, Fire 2]) = [] @ [5]"
    by blast
  moreover have "run init [Start 3 (Some 7) (Some 5), Tick 1, Tick 1, Tick 1] = w3"
    by (simp only: run.simps step.simps(1) w3_def)
  moreover have
    "run init [Start 3 (Some 7) (Some 5), Tick 1, Tick 1, Tick 1, Tick 1, Resume, Fire 2] =
       run w3 [Tick 1, Resume, Fire 2]"
    by (simp only: run.simps step.simps(1) w3_def)
  ultimately show ?thesis
    using wf_init q by simp
qed


text \<open>
  Claim C4 (\<open>stopTimer\<close>, called in any state, cancels the tick, sets \<open>secondsRemaining\<close>
  to 0, re-renders the display and leaves the timer idle). The body of \<open>stopTimer\<close> is
  guarded by \<open>if (this.timerInterval)\<close>, and \<open>pauseTimer\<close> has set that field to \<open>null\<close>.
  After two ticks of a ten-second countdown and a pause, \<open>stopTimer\<close> therefore leaves
  \<open>secondsRemaining\<close> at 8 and writes nothing to the display; the timer is not cleared:
  \<open>resumeTimer\<close> starts it again from 8, and eight ticks later the callback is called.
\<close>

theorem stopTimer_paused_failing_input:
  "\<not> isRunning (run init [Start 10 (Some 7) (Some 5), Tick 1, Tick 1, Pause])
   \<and> secondsRemaining (run init [Start 10 (Some 7) (Some 5), Tick 1, Tick 1, Pause]) = 8
   \<and> secondsRemaining (stopTimer (run init [Start 10 (Some 7) (Some 5), Tick 1, Tick 1, Pause])) = 8
   \<and> rendered (stopTimer (run init [Start 10 (Some 7) (Some 5), Tick 1, Tick 1, Pause])) =
       rendered (run init [Start 10 (Some 7) (Some 5), Tick 1, Tick 1, Pause])
   \<and> isRunning (run init [Start 10 (Some 7) (Some 5), Tick 1, Tick 1, Pause, Stop, Resume])
   \<and> secondsRemaining
        (run init [Start 10 (Some 7) (Some 5), Tick 1, Tick 1, Pause, Stop, Resume]) = 8
   \<and> invoked (run init [Start 10 (Some 7) (Some 5), Tick 1, Tick 1, Pause, Stop, Resume,
        Tick 2, Tick 2, Tick 2, Tick 2, Tick 2, Tick 2, Tick 2, Tick 2]) = [5]"
  by code_simp

text \<open>
  What \<open>stopTimer\<close> does in every state where the schedule agrees with the timer: it leaves
  the timer not running with no tick able to come due, and calls no callback. When the
  timer was running it also sets \<open>secondsRemaining\<close> to 0 and writes 00:00 to the display;
  when it was not, it changes nothing.
\<close>

lemma stopTimer_effect:
  assumes "wf w"
  shows "timerInterval (stopTimer w) = None \<and> intervals (stopTimer w) = []
    \<and> \<not> isRunning (stopTimer w)
    \<and> (\<forall>i. step (stopTimer w) (Tick i) = stopTimer w)
    \<and> invoked (stopTimer w) = invoked w
    \<and> (isRunning w \<longrightarrow>
         secondsRemaining (stopTimer w) = 0
         \<and> (\<forall>d. currentTimerDisplay w = Some d \<longrightarrow>
               textContent (document (stopTimer w) d) = ''00:00''))
    \<and> (\<not> isRunning w \<longrightarrow> stopTimer w = w)"
proof -
  have none: "intervals (stopTimer w) = []"
    using assms by (rule intervals_stopTimer_wf)
  have quiet: "\<forall>i. step (stopTimer w) (Tick i) = stopTimer w"
    by (intro allI tick_not_due) (simp add: none)
  have idle: "timerInterval (stopTimer w) = None" "\<not> isRunning (stopTimer w)"
    "invoked (stopTimer w) = invoked w"
    by (simp_all add: stopTimer_fields isRunning_def)
  have zero: "isRunning w \<longrightarrow>
      secondsRemaining (stopTimer w) = 0
      \<and> (\<forall>d. currentTimerDisplay w = Some d \<longrightarrow>
            textContent (document (stopTimer w) d) = ''00:00'')"
    by (simp add: stopTimer_fields isRunning_def stopTimer_text)
  have same: "\<not> isRunning w \<longrightarrow> stopTimer w = w"
    by (simp add: isRunning_def stopTimer_idle)
  from none quiet idle zero same show ?thesis
    by blast
qed

text \<open>The same at a running timer after one tick, and at the idle timer.\<close>

lemma stopTimer_effect_instance:
  "wf (run init [Start 10 (Some 7) (Some 5), Tick 1])
   \<and> isRunning (run init [Start 10 (Some 7) (Some 5), Tick 1])
   \<and> currentTimerDisplay (run init [Start 10 (Some 7) (Some 5), Tick 1]) = Some 7
   \<and> secondsRemaining (stopTimer (run init [Start 10 (Some 7) (Some 5), Tick 1])) = 0
   \<and> textContent (document (stopTimer (run init [Start 10 (Some 7) (Some 5), Tick 1])) 7) = ''00:00''
   \<and> \<not> isRunning init \<and> stopTimer init = init"
proof -
  have a: "wf (run init [Start 10 (Some 7) (Some 5), Tick 1])"
    using wf_init by (rule wf_run)
  have b: "isRunning (run init [Start 10 (Some 7) (Some 5), Tick 1])"
    by code_simp
  have c: "currentTimerDisplay (run init [Start 10 (Some 7) (Some 5), Tick 1]) = Some 7"
    by code_simp
  have d: "\<not> isRunning init"
    by (simp add: isRunning_def init_def)
  from stopTimer_effect [OF a] stopTimer_effect [OF wf_init] a b c d show ?thesis
    by blast
qed

text \<open>
  Claim C5: when \<open>startTimer\<close> is called while a countdown is running, the old interval is
  cleared before \<open>startTimer\<close> returns and never comes due again, the old callback is never
  called afterwards (as long as it is not handed to \<open>startTimer\<close> again), and the new
  countdown runs from its own number of seconds.
\<close>

theorem startTimer_replaces_running:
  fixes w :: world and seconds :: int and displayElement callback :: "nat option"
    and h cb :: nat and es :: "event list"
  defines "w' \<equiv> startTimer seconds displayElement callback w"
  assumes "wf w" and "timerInterval w = Some h" and "completionCallback w = Some cb"
    and "callback \<noteq> Some cb" and "list_all (\<lambda>e. \<not> startsWith cb e) es"
  shows "h \<notin> set (map fst (intervals w')) \<and> step w' (Tick h) = w'
    \<and> h \<notin> set (map fst (intervals (run w' es)))
    \<and> step (run w' es) (Tick h) = run w' es
    \<and> invoked w' = invoked w
    \<and> count_list (invoked (run w' es)) cb = count_list (invoked w) cb
    \<and> isRunning w' \<and> intervals w' = [(nextHandle w, 1000)]
    \<and> secondsRemaining w' = seconds
    \<and> secondsRemaining (step w' (Tick (nextHandle w))) = seconds - 1"
proof -
  from \<open>wf w\<close> \<open>timerInterval w = Some h\<close> have old: "h < nextHandle w"
    by (auto simp add: wf_def)
  have i: "intervals w' = [(nextHandle w, 1000)]"
    using \<open>wf w\<close> by (simp add: w'_def startTimer_fields intervals_stopTimer_wf)
  from old have gone: "h \<notin> set (map fst (intervals w'))"
    by (simp add: i)
  from old have "h < nextHandle w'"
    by (simp add: w'_def startTimer_fields)
  then have later: "h \<notin> set (map fst (intervals (run w' es)))"
    using gone by (rule stale_run)
  have "completionCallback w' \<noteq> Some cb"
    using \<open>callback \<noteq> Some cb\<close> by (simp add: w'_def startTimer_fields)
  then have "count_list (invoked (run w' es)) cb = count_list (invoked w') cb"
    using \<open>list_all (\<lambda>e. \<not> startsWith cb e) es\<close> by (rule callback_run)
  moreover have "invoked w' = invoked w"
    by (simp add: w'_def startTimer_fields)
  moreover have "step w' (Tick (nextHandle w)) = intervalTick w'"
    by (rule tick_due) (simp add: i)
  moreover have "secondsRemaining w' = seconds" "isRunning w'"
    by (simp_all add: w'_def startTimer_fields isRunning_def)
  ultimately show ?thesis
    using gone later i by (simp add: tick_not_due intervalTick_fields del: step.simps)
qed

text \<open>
  Claim C5: a countdown with callback 5 replaced after one tick by a countdown of one second
  with callback 6, which then completes.
\<close>

theorem startTimer_replaces_running_witness:
  "wf (run init [Start 3 (Some 7) (Some 5), Tick 1])
   \<and> timerInterval (run init [Start 3 (Some 7) (Some 5), Tick 1]) = Some 1
   \<and> completionCallback (run init [Start 3 (Some 7) (Some 5), Tick 1]) = Some 5
   \<and> Some 6 \<noteq> Some (5::nat)
   \<and> list_all (\<lambda>e. \<not> startsWith 5 e) [Tick 1, Tick 1, Tick 1, Tick 2, Fire 3]
   \<and> count_list (invoked (run (startTimer 1 (Some 8) (Some 6)
         (run init [Start 3 (Some 7) (Some 5), Tick 1])) [Tick 1, Tick 1, Tick 1, Tick 2, Fire 3])) 5 = 0
   \<and> secondsRemaining (startTimer 1 (Some 8) (Some 6)
         (run init [Start 3 (Some 7) (Some 5), Tick 1])) = 1"
proof -
  define w where "w = run init [Start 3 (Some 7) (Some 5), Tick 1]"
  have a: "wf w"
    unfolding w_def using wf_init by (rule wf_run)
  have b: "timerInterval w = Some 1"
    unfolding w_def by code_simp
  have c: "completionCallback w = Some 5"
    unfolding w_def by code_simp
  have d: "Some 6 \<noteq> Some (5::nat)"
    by simp
  have e: "list_all (\<lambda>e. \<not> startsWith 5 e) [Tick 1, Tick 1, Tick 1, Tick 2, Fire 3]"
    by simp
  have f: "count_list (invoked w) 5 = 0"
    unfolding w_def by code_simp
  note t = startTimer_replaces_running [OF a b c d e, of 1 "Some 8"]
  from t have "count_list (invoked (run (startTimer 1 (Some 8) (Some 6) w)
      [Tick 1, Tick 1, Tick 1, Tick 2, Fire 3])) 5 = count_list (invoked w) 5"
    by blast
  moreover from t have "secondsRemaining (startTimer 1 (Some 8) (Some 6) w) = 1"
    by blast
  ultimately show ?thesis
    using a b c d e f unfolding w_def by (simp only: simp_thms)
qed

text \<open>
  Claim C6 as stated fails for \<open>startTimer(0, \<dots>)\<close>: the first tick decrements before it
  tests, and leaves \<open>secondsRemaining\<close> at \<open>-1\<close>.
\<close>

theorem secondsRemaining_negative_counterexample:
  "secondsRemaining (run init [Start 0 (Some 7) (Some 5), Tick 1]) = - 1
   \<and> \<not> 0 \<le> secondsRemaining (run init [Start 0 (Some 7) (Some 5), Tick 1])"
  by code_simp

text \<open>
  Claim C6, amended: in every state reached from the loaded page by calls of the four
  operations, ticks and timeouts, \<open>secondsRemaining\<close> is at least 0, provided every call of
  \<open>startTimer\<close> asks for at least one second.
\<close>

theorem secondsRemaining_nonneg:
  "list_all startsPositive es \<Longrightarrow> 0 \<le> secondsRemaining (run init es)"
  by (rule nonneg_run) (simp_all add: wf_init, simp_all add: init_def)

text \<open>Claim C6, amended: a one-second countdown run to completion and beyond.\<close>

theorem secondsRemaining_nonneg_witness:
  "list_all startsPositive [Start 1 (Some 7) (Some 5), Tick 1, Tick 1, Resume, Pause, Stop, Fire 2]
   \<and> 0 \<le> secondsRemaining
       (run init [Start 1 (Some 7) (Some 5), Tick 1, Tick 1, Resume, Pause, Stop, Fire 2])"
proof -
  have p: "list_all startsPositive
      [Start 1 (Some 7) (Some 5), Tick 1, Tick 1, Resume, Pause, Stop, Fire 2]"
    by simp
  from secondsRemaining_nonneg [OF p] p show ?thesis
    by blast
qed

end
